theory Spec2Isabelle
  imports Main
begin

section \<open>Nostra event field mapper\<close>

text \<open>
  A shallow embedding of \<^verbatim>\<open>apps/data_handler/handler_tools/data_parser/nostra.py\<close>:
  the class \<^verbatim>\<open>NostraDataParser\<close>, whose methods pick fixed positions out of a decoded
  event log and hand them to a serializer.

  Conventions of the embedding.
  \<^item> A Python value of the raw log (\<^verbatim>\<open>Any\<close>) is a \<open>py_value\<close>: a string, an unbounded
    integer or \<^verbatim>\<open>None\<close>.
  \<^item> A raised exception is the left summand of the result, a returned value the right one.
  \<^item> Every method receives the object it is called on as its first argument, as in the
    source (\<^verbatim>\<open>self\<close>, and \<^verbatim>\<open>cls\<close> in two methods that carry no \<^verbatim>\<open>@classmethod\<close>).
    The object is its attribute dictionary; the class defines no attribute.
  \<^item> The method bodies are modelled as written. The annotations \<^verbatim>\<open>List[Any]\<close> are not
    evaluated by the model (the module imports only \<^verbatim>\<open>Any\<close> from \<^verbatim>\<open>typing\<close>).
\<close>

subsection \<open>Values and exceptions\<close>

datatype py_value = PyStr string | PyInt int | PyNone

datatype error = IndexError | NotImplementedError

text \<open>
  \<^verbatim>\<open>event_data[i]\<close> for a literal index \<open>i \<ge> 0\<close>, the only form of subscript in the
  source: the element at position \<open>i\<close>, and \<^verbatim>\<open>IndexError\<close> when the list has no such
  position.
\<close>

definition getitem :: "py_value list \<Rightarrow> nat \<Rightarrow> error + py_value" where
  "getitem event_data i =
     (if i < length event_data then Inr (event_data ! i) else Inl IndexError)"

subsection \<open>The serializers\<close>

text \<open>
  Modelled from the spec: the record types of
  \<^verbatim>\<open>data_handler.handler_tools.data_parser.serializers\<close>, which the parser imports and
  which are not part of the source at hand. Each is a flat record of the named fields the
  parser passes as keyword arguments; construction stores the values as given.
\<close>

record InterestRateModelEventData =
  debt_token :: py_value
  lending_index :: py_value
  borrow_index :: py_value

record BearingCollateralMintEventData =
  user :: py_value
  amount :: py_value

record BearingCollateralBurnEventData =
  user :: py_value
  amount :: py_value

record DebtTransferEventData =
  sender :: py_value
  recipient :: py_value
  amount :: py_value
  token :: string

record DebtMintEventData =
  user :: py_value
  token :: py_value

record DebtBurnEventData =
  user :: py_value
  amount :: py_value

subsection \<open>The parser\<close>

text \<open>An instance of \<^verbatim>\<open>NostraDataParser\<close>: its attribute dictionary.\<close>

datatype NostraDataParser = NostraDataParser "(string \<times> py_value) list"

text \<open>
  Keyword arguments are evaluated left to right, so the subscripts are read in the order of
  the source and the first one that raises ends the call.
\<close>

definition parse_interest_rate_model_event ::
  "NostraDataParser \<Rightarrow> py_value list \<Rightarrow> error + InterestRateModelEventData" where
  "parse_interest_rate_model_event cls event_data =
     (case getitem event_data 0 of Inl e \<Rightarrow> Inl e | Inr v0 \<Rightarrow>
      case getitem event_data 5 of Inl e \<Rightarrow> Inl e | Inr v5 \<Rightarrow>
      case getitem event_data 7 of Inl e \<Rightarrow> Inl e | Inr v7 \<Rightarrow>
        Inr \<lparr>debt_token = v0, lending_index = v5, borrow_index = v7\<rparr>)"

text \<open>The two stubs: the body is \<^verbatim>\<open>pass\<close>, so the call returns \<^verbatim>\<open>None\<close>.\<close>

definition parse_non_interest_bearing_collateral_mint_event ::
  "NostraDataParser \<Rightarrow> error + py_value" where
  "parse_non_interest_bearing_collateral_mint_event self = Inr PyNone"

definition parse_non_interest_bearing_collateral_burn_event ::
  "NostraDataParser \<Rightarrow> error + py_value" where
  "parse_non_interest_bearing_collateral_burn_event self = Inr PyNone"

definition parse_interest_bearing_collateral_mint_event ::
  "NostraDataParser \<Rightarrow> py_value list \<Rightarrow> error + BearingCollateralMintEventData" where
  "parse_interest_bearing_collateral_mint_event self event_data =
     (case getitem event_data 0 of Inl e \<Rightarrow> Inl e | Inr v0 \<Rightarrow>
      case getitem event_data 1 of Inl e \<Rightarrow> Inl e | Inr v1 \<Rightarrow>
        Inr \<lparr>BearingCollateralMintEventData.user = v0,
             BearingCollateralMintEventData.amount = v1\<rparr>)"

definition parse_interest_bearing_collateral_burn_event ::
  "NostraDataParser \<Rightarrow> py_value list \<Rightarrow> error + BearingCollateralBurnEventData" where
  "parse_interest_bearing_collateral_burn_event self event_data =
     (case getitem event_data 0 of Inl e \<Rightarrow> Inl e | Inr v0 \<Rightarrow>
      case getitem event_data 1 of Inl e \<Rightarrow> Inl e | Inr v1 \<Rightarrow>
        Inr \<lparr>BearingCollateralBurnEventData.user = v0,
             BearingCollateralBurnEventData.amount = v1\<rparr>)"

definition parse_debt_transfer_event ::
  "NostraDataParser \<Rightarrow> py_value list \<Rightarrow> string \<Rightarrow> error + DebtTransferEventData" where
  "parse_debt_transfer_event cls event_data from_address =
     (case getitem event_data 0 of Inl e \<Rightarrow> Inl e | Inr v0 \<Rightarrow>
      case getitem event_data 1 of Inl e \<Rightarrow> Inl e | Inr v1 \<Rightarrow>
      case getitem event_data 2 of Inl e \<Rightarrow> Inl e | Inr v2 \<Rightarrow>
        Inr \<lparr>sender = v0, recipient = v1,
             DebtTransferEventData.amount = v2,
             DebtTransferEventData.token = from_address\<rparr>)"

definition parse_debt_mint_event ::
  "NostraDataParser \<Rightarrow> py_value list \<Rightarrow> error + DebtMintEventData" where
  "parse_debt_mint_event self event_data =
     (case getitem event_data 0 of Inl e \<Rightarrow> Inl e | Inr v0 \<Rightarrow>
      case getitem event_data 1 of Inl e \<Rightarrow> Inl e | Inr v1 \<Rightarrow>
        Inr \<lparr>DebtMintEventData.user = v0, DebtMintEventData.token = v1\<rparr>)"

definition parse_debt_burn_event ::
  "NostraDataParser \<Rightarrow> py_value list \<Rightarrow> error + DebtBurnEventData" where
  "parse_debt_burn_event self event_data =
     (case getitem event_data 0 of Inl e \<Rightarrow> Inl e | Inr v0 \<Rightarrow>
      case getitem event_data 1 of Inl e \<Rightarrow> Inl e | Inr v1 \<Rightarrow>
        Inr \<lparr>DebtBurnEventData.user = v0, DebtBurnEventData.amount = v1\<rparr>)"

subsection \<open>The parser on a store\<close>

text \<open>
  Python passes objects by reference, and a list and a parser object are mutable: a method
  may change the list it is handed, set an attribute on its receiver, or write to a stream,
  and a later call would see it. To speak of such effects the same method bodies are read
  once more over an explicit state: the list objects and the attribute dictionaries of the
  parser objects, each by address, and the text written to standard output so far. A call takes the
  state and returns its outcome (a raised exception or a value) with the state it leaves.
\<close>

record py_state =
  lists :: "nat \<Rightarrow> py_value list"
  attributes :: "nat \<Rightarrow> (string \<times> py_value) list"
  stdout :: "string list"

type_synonym 'a py = "py_state \<Rightarrow> (error + 'a) \<times> py_state"

text \<open>Returning a value, and running one step after another; an exception skips the rest.\<close>

definition return_py :: "'a \<Rightarrow> 'a py" where
  "return_py v s = (Inr v, s)"

definition bind_py :: "'a py \<Rightarrow> ('a \<Rightarrow> 'b py) \<Rightarrow> 'b py" where
  "bind_py m f s = (case m s of (Inl e, s') \<Rightarrow> (Inl e, s') | (Inr v, s') \<Rightarrow> f v s')"

text \<open>
  \<^verbatim>\<open>event_data[i]\<close> where \<^verbatim>\<open>event_data\<close> refers to the list object at address \<open>ref\<close>:
  a read of that object.
\<close>

definition load_subscr :: "nat \<Rightarrow> nat \<Rightarrow> py_value py" where
  "load_subscr ref i s = (getitem (lists s ref) i, s)"

text \<open>
  The six implemented methods, statement by statement as in the source; \<open>self\<close> and
  \<open>event_data\<close> are the addresses of the receiver and of the list.
\<close>

definition parse_interest_rate_model_event_st ::
  "nat \<Rightarrow> nat \<Rightarrow> InterestRateModelEventData py" where
  "parse_interest_rate_model_event_st cls event_data =
     bind_py (load_subscr event_data 0) (\<lambda>v0.
     bind_py (load_subscr event_data 5) (\<lambda>v5.
     bind_py (load_subscr event_data 7) (\<lambda>v7.
     return_py \<lparr>debt_token = v0, lending_index = v5, borrow_index = v7\<rparr>)))"

definition parse_interest_bearing_collateral_mint_event_st ::
  "nat \<Rightarrow> nat \<Rightarrow> BearingCollateralMintEventData py" where
  "parse_interest_bearing_collateral_mint_event_st self event_data =
     bind_py (load_subscr event_data 0) (\<lambda>v0.
     bind_py (load_subscr event_data 1) (\<lambda>v1.
     return_py \<lparr>BearingCollateralMintEventData.user = v0,
                BearingCollateralMintEventData.amount = v1\<rparr>))"

definition parse_interest_bearing_collateral_burn_event_st ::
  "nat \<Rightarrow> nat \<Rightarrow> BearingCollateralBurnEventData py" where
  "parse_interest_bearing_collateral_burn_event_st self event_data =
     bind_py (load_subscr event_data 0) (\<lambda>v0.
     bind_py (load_subscr event_data 1) (\<lambda>v1.
     return_py \<lparr>BearingCollateralBurnEventData.user = v0,
                BearingCollateralBurnEventData.amount = v1\<rparr>))"

definition parse_debt_transfer_event_st ::
  "nat \<Rightarrow> nat \<Rightarrow> string \<Rightarrow> DebtTransferEventData py" where
  "parse_debt_transfer_event_st cls event_data from_address =
     bind_py (load_subscr event_data 0) (\<lambda>v0.
     bind_py (load_subscr event_data 1) (\<lambda>v1.
     bind_py (load_subscr event_data 2) (\<lambda>v2.
     return_py \<lparr>sender = v0, recipient = v1,
                DebtTransferEventData.amount = v2,
                DebtTransferEventData.token = from_address\<rparr>)))"

definition parse_debt_mint_event_st :: "nat \<Rightarrow> nat \<Rightarrow> DebtMintEventData py" where
  "parse_debt_mint_event_st self event_data =
     bind_py (load_subscr event_data 0) (\<lambda>v0.
     bind_py (load_subscr event_data 1) (\<lambda>v1.
     return_py \<lparr>DebtMintEventData.user = v0, DebtMintEventData.token = v1\<rparr>))"

definition parse_debt_burn_event_st :: "nat \<Rightarrow> nat \<Rightarrow> DebtBurnEventData py" where
  "parse_debt_burn_event_st self event_data =
     bind_py (load_subscr event_data 0) (\<lambda>v0.
     bind_py (load_subscr event_data 1) (\<lambda>v1.
     return_py \<lparr>DebtBurnEventData.user = v0, DebtBurnEventData.amount = v1\<rparr>))"

text \<open>
  The same call made twice in a row: the second runs in the state the first has left. The
  value is the two outcomes and the final state.
\<close>

definition call_twice :: "'a py \<Rightarrow> py_state \<Rightarrow> (error + 'a) \<times> (error + 'a) \<times> py_state" where
  "call_twice m s = (case m s of (r1, s1) \<Rightarrow> case m s1 of (r2, s2) \<Rightarrow> (r1, r2, s2))"

section \<open>Properties\<close>

subsection \<open>Subscripts\<close>

lemma parse_interest_rate_model_event_ok:
  assumes "8 \<le> length event_data"
  shows "parse_interest_rate_model_event cls event_data =
           Inr \<lparr>debt_token = event_data ! 0, lending_index = event_data ! 5,
                borrow_index = event_data ! 7\<rparr>"
  using assms by (auto simp: parse_interest_rate_model_event_def getitem_def)

lemma parse_debt_transfer_event_ok:
  assumes "3 \<le> length event_data"
  shows "parse_debt_transfer_event cls event_data from_address =
           Inr \<lparr>sender = event_data ! 0, recipient = event_data ! 1,
                DebtTransferEventData.amount = event_data ! 2,
                DebtTransferEventData.token = from_address\<rparr>"
  using assms by (auto simp: parse_debt_transfer_event_def getitem_def)

subsection \<open>Interest rate model events\<close>

text \<open>
  C1, as stated: on every list of at least 8 elements \<open>parse_interest_rate_model_event\<close>
  returns the record whose \<open>debt_token\<close>, \<open>lending_index\<close> and \<open>borrow_index\<close> are the
  elements at positions 0, 5 and 7, and on the list
  \<^verbatim>\<open>["0xabc", 1, 2, 3, 4, 100000000000000000, 6, 7, 200000000000000000]\<close> the record
  has \<^verbatim>\<open>borrow_index=200000000000000000\<close>. The example fails: position 7 of that list
  holds 7, and 200000000000000000 sits at position 8, which the parser never reads.
\<close>

theorem parse_interest_rate_model_event_example_counterexample:
  "parse_interest_rate_model_event (NostraDataParser [])
     [PyStr ''0xabc'', PyInt 1, PyInt 2, PyInt 3, PyInt 4, PyInt 100000000000000000,
      PyInt 6, PyInt 7, PyInt 200000000000000000] \<noteq>
   Inr \<lparr>debt_token = PyStr ''0xabc'', lending_index = PyInt 100000000000000000,
        borrow_index = PyInt 200000000000000000\<rparr>"
  by (simp add: parse_interest_rate_model_event_def getitem_def)

text \<open>
  C1, amended: on every list of at least 8 elements \<open>parse_interest_rate_model_event\<close>
  returns the record whose \<open>debt_token\<close>, \<open>lending_index\<close> and \<open>borrow_index\<close> are the
  elements at positions 0, 5 and 7; on the list
  \<^verbatim>\<open>["0xabc", 1, 2, 3, 4, 100000000000000000, 6, 7, 200000000000000000]\<close> it returns
  \<^verbatim>\<open>debt_token="0xabc", lending_index=100000000000000000, borrow_index=7\<close>.
\<close>

theorem parse_interest_rate_model_event_fields:
  "(\<forall>cls event_data. 8 \<le> length event_data \<longrightarrow>
      parse_interest_rate_model_event cls event_data =
        Inr \<lparr>debt_token = event_data ! 0, lending_index = event_data ! 5,
             borrow_index = event_data ! 7\<rparr>)
   \<and> (\<forall>cls. parse_interest_rate_model_event cls
        [PyStr ''0xabc'', PyInt 1, PyInt 2, PyInt 3, PyInt 4, PyInt 100000000000000000,
         PyInt 6, PyInt 7, PyInt 200000000000000000] =
        Inr \<lparr>debt_token = PyStr ''0xabc'', lending_index = PyInt 100000000000000000,
             borrow_index = PyInt 7\<rparr>)"
proof (intro conjI allI impI)
  fix cls and event_data :: "py_value list"
  assume "8 \<le> length event_data"
  then show "parse_interest_rate_model_event cls event_data =
      Inr \<lparr>debt_token = event_data ! 0, lending_index = event_data ! 5,
           borrow_index = event_data ! 7\<rparr>"
    by (rule parse_interest_rate_model_event_ok)
next
  fix cls
  show "parse_interest_rate_model_event cls
        [PyStr ''0xabc'', PyInt 1, PyInt 2, PyInt 3, PyInt 4, PyInt 100000000000000000,
         PyInt 6, PyInt 7, PyInt 200000000000000000] =
        Inr \<lparr>debt_token = PyStr ''0xabc'', lending_index = PyInt 100000000000000000,
             borrow_index = PyInt 7\<rparr>"
    by (simp add: parse_interest_rate_model_event_def getitem_def)
qed

theorem parse_interest_rate_model_event_fields_witness:
  "8 \<le> length [PyStr ''0xdebt'', PyInt 1, PyInt 2, PyInt 3, PyInt 4, PyInt 50, PyInt 6, PyInt 70]
   \<and> parse_interest_rate_model_event (NostraDataParser [])
        [PyStr ''0xdebt'', PyInt 1, PyInt 2, PyInt 3, PyInt 4, PyInt 50, PyInt 6, PyInt 70] =
      Inr \<lparr>debt_token = PyStr ''0xdebt'', lending_index = PyInt 50, borrow_index = PyInt 70\<rparr>"
  using parse_interest_rate_model_event_fields
    [THEN conjunct1, rule_format, of
      "[PyStr ''0xdebt'', PyInt 1, PyInt 2, PyInt 3, PyInt 4, PyInt 50, PyInt 6, PyInt 70]"
      "NostraDataParser []"]
  by simp

text \<open>
  C8. \<open>parse_interest_rate_model_event\<close> succeeds on every list of exactly 8 elements: it
  reads positions 0, 5 and 7 only, and the absence of a ninth element raises nothing.
\<close>

theorem parse_interest_rate_model_event_eight_elements:
  assumes "length event_data = 8"
  shows "parse_interest_rate_model_event cls event_data =
           Inr \<lparr>debt_token = event_data ! 0, lending_index = event_data ! 5,
                borrow_index = event_data ! 7\<rparr>
         \<and> parse_interest_rate_model_event cls event_data \<noteq> Inl IndexError"
proof -
  from assms have "8 \<le> length event_data" by simp
  then show ?thesis by (simp add: parse_interest_rate_model_event_ok)
qed

theorem parse_interest_rate_model_event_eight_elements_witness:
  "length [PyStr ''0xabc'', PyInt 1, PyInt 2, PyInt 3, PyInt 4, PyInt 100000000000000000,
           PyInt 6, PyInt 7] = 8
   \<and> parse_interest_rate_model_event (NostraDataParser [])
        [PyStr ''0xabc'', PyInt 1, PyInt 2, PyInt 3, PyInt 4, PyInt 100000000000000000,
         PyInt 6, PyInt 7] =
      Inr \<lparr>debt_token = PyStr ''0xabc'', lending_index = PyInt 100000000000000000,
           borrow_index = PyInt 7\<rparr>"
  using parse_interest_rate_model_event_eight_elements
    [of "[PyStr ''0xabc'', PyInt 1, PyInt 2, PyInt 3, PyInt 4, PyInt 100000000000000000,
          PyInt 6, PyInt 7]" "NostraDataParser []"]
  by simp

text \<open>
  C9. The result of \<open>parse_interest_rate_model_event\<close> depends on positions 0, 5 and 7
  only: two lists of at least 8 elements that agree there give equal records, whatever they
  hold at positions 1, 2, 3, 4, 6, 8 and beyond (and whichever object the method is called on).
\<close>

theorem parse_interest_rate_model_event_depends_on_0_5_7:
  assumes "8 \<le> length event_data" and "8 \<le> length event_data'"
    and "event_data ! 0 = event_data' ! 0"
    and "event_data ! 5 = event_data' ! 5"
    and "event_data ! 7 = event_data' ! 7"
  shows "parse_interest_rate_model_event cls event_data =
         parse_interest_rate_model_event cls' event_data'"
  using assms by (simp add: parse_interest_rate_model_event_ok)

theorem parse_interest_rate_model_event_depends_on_0_5_7_witness:
  "8 \<le> length [PyStr ''0xabc'', PyInt 1, PyInt 2, PyInt 3, PyInt 4, PyInt 55, PyInt 6, PyInt 77]
   \<and> 8 \<le> length [PyStr ''0xabc'', PyNone, PyStr ''x'', PyInt 0, PyInt (- 4), PyInt 55,
                  PyStr ''0x6'', PyInt 77, PyInt 8, PyInt 9]
   \<and> parse_interest_rate_model_event (NostraDataParser [])
        [PyStr ''0xabc'', PyInt 1, PyInt 2, PyInt 3, PyInt 4, PyInt 55, PyInt 6, PyInt 77] =
      parse_interest_rate_model_event (NostraDataParser [(''seen'', PyInt 1)])
        [PyStr ''0xabc'', PyNone, PyStr ''x'', PyInt 0, PyInt (- 4), PyInt 55,
         PyStr ''0x6'', PyInt 77, PyInt 8, PyInt 9]"
  using parse_interest_rate_model_event_depends_on_0_5_7
    [of "[PyStr ''0xabc'', PyInt 1, PyInt 2, PyInt 3, PyInt 4, PyInt 55, PyInt 6, PyInt 77]"
        "[PyStr ''0xabc'', PyNone, PyStr ''x'', PyInt 0, PyInt (- 4), PyInt 55,
          PyStr ''0x6'', PyInt 77, PyInt 8, PyInt 9]"
        "NostraDataParser []" "NostraDataParser [(''seen'', PyInt 1)]"]
  by simp

subsection \<open>Debt transfer events\<close>

text \<open>
  C2, as stated: on every list of at least 3 elements \<open>parse_debt_transfer_event\<close> returns
  the record with \<open>sender\<close>, \<open>recipient\<close>, \<open>amount\<close> from positions 0, 1, 2 and
  \<open>token\<close> equal to \<open>from_address\<close>, and \<open>token\<close> never equals the element at
  position 3. The last part fails when the caller passes as \<open>from_address\<close> the very
  string that sits at position 3: \<open>token\<close> is \<open>from_address\<close>, hence equal to that
  element.
\<close>

theorem parse_debt_transfer_event_token_counterexample:
  "parse_debt_transfer_event (NostraDataParser [])
     [PyStr ''0xsender'', PyStr ''0xrecipient'', PyInt 5, PyStr ''0xtoken''] ''0xtoken'' =
   Inr \<lparr>sender = PyStr ''0xsender'', recipient = PyStr ''0xrecipient'',
        DebtTransferEventData.amount = PyInt 5,
        DebtTransferEventData.token = ''0xtoken''\<rparr>
   \<and> PyStr ''0xtoken'' =
       [PyStr ''0xsender'', PyStr ''0xrecipient'', PyInt 5, PyStr ''0xtoken''] ! 3"
  by (simp add: parse_debt_transfer_event_def getitem_def)

text \<open>
  C2, amended: on every list of at least 3 elements and for every \<open>from_address\<close>,
  \<open>parse_debt_transfer_event\<close> returns the record with \<open>sender\<close>, \<open>recipient\<close>,
  \<open>amount\<close> from positions 0, 1, 2 and \<open>token\<close> equal to \<open>from_address\<close>; when the
  list has 4 or more elements, the returned \<open>token\<close> equals the element at position 3
  exactly when \<open>from_address\<close> itself equals it.
\<close>

theorem parse_debt_transfer_event_fields:
  "(\<forall>cls event_data from_address. 3 \<le> length event_data \<longrightarrow>
      parse_debt_transfer_event cls event_data from_address =
        Inr \<lparr>sender = event_data ! 0, recipient = event_data ! 1,
             DebtTransferEventData.amount = event_data ! 2,
             DebtTransferEventData.token = from_address\<rparr>)
   \<and> (\<forall>cls event_data from_address r. 4 \<le> length event_data \<longrightarrow>
        parse_debt_transfer_event cls event_data from_address = Inr r \<longrightarrow>
        (PyStr (DebtTransferEventData.token r) = event_data ! 3) =
        (PyStr from_address = event_data ! 3))"
proof (intro conjI allI impI)
  fix cls and event_data :: "py_value list" and from_address
  assume "3 \<le> length event_data"
  then show "parse_debt_transfer_event cls event_data from_address =
        Inr \<lparr>sender = event_data ! 0, recipient = event_data ! 1,
             DebtTransferEventData.amount = event_data ! 2,
             DebtTransferEventData.token = from_address\<rparr>"
    by (rule parse_debt_transfer_event_ok)
next
  fix cls and event_data :: "py_value list" and from_address r
  assume len: "4 \<le> length event_data"
    and res: "parse_debt_transfer_event cls event_data from_address = Inr r"
  from len have "3 \<le> length event_data" by simp
  with res have "DebtTransferEventData.token r = from_address"
    by (auto simp: parse_debt_transfer_event_ok)
  then show "(PyStr (DebtTransferEventData.token r) = event_data ! 3) =
             (PyStr from_address = event_data ! 3)"
    by simp
qed

theorem parse_debt_transfer_event_fields_witness:
  "3 \<le> length [PyStr ''0xsender'', PyStr ''0xrecipient'', PyInt 5, PyStr ''0x0'']
   \<and> 4 \<le> length [PyStr ''0xsender'', PyStr ''0xrecipient'', PyInt 5, PyStr ''0x0'']
   \<and> parse_debt_transfer_event (NostraDataParser [])
        [PyStr ''0xsender'', PyStr ''0xrecipient'', PyInt 5, PyStr ''0x0''] ''0xtoken'' =
      Inr \<lparr>sender = PyStr ''0xsender'', recipient = PyStr ''0xrecipient'',
           DebtTransferEventData.amount = PyInt 5,
           DebtTransferEventData.token = ''0xtoken''\<rparr>
   \<and> PyStr (DebtTransferEventData.token
         \<lparr>sender = PyStr ''0xsender'', recipient = PyStr ''0xrecipient'',
          DebtTransferEventData.amount = PyInt 5,
          DebtTransferEventData.token = ''0xtoken''\<rparr>) \<noteq>
       [PyStr ''0xsender'', PyStr ''0xrecipient'', PyInt 5, PyStr ''0x0''] ! 3"
proof -
  let ?event_data = "[PyStr ''0xsender'', PyStr ''0xrecipient'', PyInt 5, PyStr ''0x0'']"
  let ?r = "\<lparr>sender = PyStr ''0xsender'', recipient = PyStr ''0xrecipient'',
             DebtTransferEventData.amount = PyInt 5,
             DebtTransferEventData.token = ''0xtoken''\<rparr>"
  have len3: "3 \<le> length ?event_data" and len4: "4 \<le> length ?event_data"
    by simp_all
  have res: "parse_debt_transfer_event (NostraDataParser []) ?event_data ''0xtoken'' = Inr ?r"
    using parse_debt_transfer_event_fields
      [THEN conjunct1, rule_format, of ?event_data "NostraDataParser []" "''0xtoken''"]
    by simp
  have "(PyStr (DebtTransferEventData.token ?r) = ?event_data ! 3) =
        (PyStr ''0xtoken'' = ?event_data ! 3)"
    using parse_debt_transfer_event_fields
      [THEN conjunct2, rule_format, OF len4 res] .
  then have "PyStr (DebtTransferEventData.token ?r) \<noteq> ?event_data ! 3"
    by simp
  with len3 len4 res show ?thesis by blast
qed

text \<open>
  C10. The result of \<open>parse_debt_transfer_event\<close> depends on positions 0, 1 and 2 and on
  \<open>from_address\<close> only: two lists of at least 3 elements that agree at positions 0, 1, 2
  give, with the same \<open>from_address\<close>, equal records, whatever they hold from position 3 on.
\<close>

theorem parse_debt_transfer_event_depends_on_0_1_2:
  assumes "3 \<le> length event_data" and "3 \<le> length event_data'"
    and "event_data ! 0 = event_data' ! 0"
    and "event_data ! 1 = event_data' ! 1"
    and "event_data ! 2 = event_data' ! 2"
  shows "parse_debt_transfer_event cls event_data from_address =
         parse_debt_transfer_event cls' event_data' from_address"
  using assms by (simp add: parse_debt_transfer_event_ok)

theorem parse_debt_transfer_event_depends_on_0_1_2_witness:
  "3 \<le> length [PyStr ''0xsender'', PyStr ''0xrecipient'', PyInt 5]
   \<and> 3 \<le> length [PyStr ''0xsender'', PyStr ''0xrecipient'', PyInt 5, PyStr ''0xtoken'', PyNone]
   \<and> parse_debt_transfer_event (NostraDataParser [])
        [PyStr ''0xsender'', PyStr ''0xrecipient'', PyInt 5] ''0xdebt'' =
      parse_debt_transfer_event (NostraDataParser [(''seen'', PyInt 1)])
        [PyStr ''0xsender'', PyStr ''0xrecipient'', PyInt 5, PyStr ''0xtoken'', PyNone] ''0xdebt''"
  using parse_debt_transfer_event_depends_on_0_1_2
    [of "[PyStr ''0xsender'', PyStr ''0xrecipient'', PyInt 5]"
        "[PyStr ''0xsender'', PyStr ''0xrecipient'', PyInt 5, PyStr ''0xtoken'', PyNone]"
        "NostraDataParser []" "''0xdebt''" "NostraDataParser [(''seen'', PyInt 1)]"]
  by simp

subsection \<open>Debt mint and debt burn events\<close>

text \<open>
  C5. On every list of at least 2 elements \<open>parse_debt_mint_event\<close> returns the
  \<open>DebtMintEventData\<close> record whose \<open>user\<close> is the element at position 0 and whose
  \<open>token\<close> (the record has no \<open>amount\<close> field) is the element at position 1.
\<close>

theorem parse_debt_mint_event_fields:
  assumes "2 \<le> length event_data"
  shows "parse_debt_mint_event self event_data =
           Inr \<lparr>DebtMintEventData.user = event_data ! 0,
                DebtMintEventData.token = event_data ! 1\<rparr>"
  using assms by (auto simp: parse_debt_mint_event_def getitem_def)

theorem parse_debt_mint_event_fields_witness:
  "2 \<le> length [PyStr ''0xuser'', PyInt 42]
   \<and> parse_debt_mint_event (NostraDataParser []) [PyStr ''0xuser'', PyInt 42] =
      Inr \<lparr>DebtMintEventData.user = PyStr ''0xuser'', DebtMintEventData.token = PyInt 42\<rparr>"
  using parse_debt_mint_event_fields [of "[PyStr ''0xuser'', PyInt 42]" "NostraDataParser []"]
  by simp

text \<open>
  C6. On every list of at least 2 elements \<open>parse_debt_burn_event\<close> returns the
  \<open>DebtBurnEventData\<close> record with \<open>user\<close> the element at position 0 and \<open>amount\<close>
  the element at position 1; on \<^verbatim>\<open>["0xuser", 42]\<close> it returns
  \<^verbatim>\<open>user="0xuser", amount=42\<close>.
\<close>

theorem parse_debt_burn_event_fields:
  "(\<forall>self event_data. 2 \<le> length event_data \<longrightarrow>
      parse_debt_burn_event self event_data =
        Inr \<lparr>DebtBurnEventData.user = event_data ! 0,
             DebtBurnEventData.amount = event_data ! 1\<rparr>)
   \<and> (\<forall>self. parse_debt_burn_event self [PyStr ''0xuser'', PyInt 42] =
        Inr \<lparr>DebtBurnEventData.user = PyStr ''0xuser'',
             DebtBurnEventData.amount = PyInt 42\<rparr>)"
  by (auto simp: parse_debt_burn_event_def getitem_def)

theorem parse_debt_burn_event_fields_witness:
  "2 \<le> length [PyStr ''0xburner'', PyInt 7, PyInt 0]
   \<and> parse_debt_burn_event (NostraDataParser []) [PyStr ''0xburner'', PyInt 7, PyInt 0] =
      Inr \<lparr>DebtBurnEventData.user = PyStr ''0xburner'', DebtBurnEventData.amount = PyInt 7\<rparr>"
  using parse_debt_burn_event_fields
    [THEN conjunct1, rule_format, of "[PyStr ''0xburner'', PyInt 7, PyInt 0]"
      "NostraDataParser []"]
  by simp

subsection \<open>The unimplemented mappers\<close>

text \<open>
  C3, as stated: a call of \<open>parse_non_interest_bearing_collateral_mint_event\<close> or of
  \<open>parse_non_interest_bearing_collateral_burn_event\<close> fails with a "not implemented"
  signal and never returns a default silently. It does not: the body is \<^verbatim>\<open>pass\<close>, the
  call returns \<^verbatim>\<open>None\<close> and raises nothing.
\<close>

theorem parse_non_interest_bearing_collateral_not_implemented_counterexample:
  "parse_non_interest_bearing_collateral_mint_event (NostraDataParser []) = Inr PyNone
   \<and> parse_non_interest_bearing_collateral_mint_event (NostraDataParser []) \<noteq>
       Inl NotImplementedError
   \<and> parse_non_interest_bearing_collateral_burn_event (NostraDataParser []) = Inr PyNone
   \<and> parse_non_interest_bearing_collateral_burn_event (NostraDataParser []) \<noteq>
       Inl NotImplementedError"
  by (simp add: parse_non_interest_bearing_collateral_mint_event_def
      parse_non_interest_bearing_collateral_burn_event_def)

text \<open>
  C3, amended: a call of either unimplemented mapper, on any parser object, returns
  \<^verbatim>\<open>None\<close>: it raises no exception of any kind and returns no record.
\<close>

theorem parse_non_interest_bearing_collateral_returns_None:
  "parse_non_interest_bearing_collateral_mint_event self = Inr PyNone
   \<and> parse_non_interest_bearing_collateral_burn_event self = Inr PyNone"
  by (simp add: parse_non_interest_bearing_collateral_mint_event_def
      parse_non_interest_bearing_collateral_burn_event_def)

subsection \<open>Short input\<close>

text \<open>
  C4. On a list shorter than the mapper needs (8 elements for
  \<open>parse_interest_rate_model_event\<close>, 3 for \<open>parse_debt_transfer_event\<close>, 2 for the
  interest bearing collateral mint and burn mappers and for the debt mint and debt burn
  mappers) the call raises \<^verbatim>\<open>IndexError\<close>; it returns no record, complete or partial.
\<close>

theorem short_event_data_raises_IndexError:
  "(\<forall>cls event_data. length event_data < 8 \<longrightarrow>
      parse_interest_rate_model_event cls event_data = Inl IndexError)
   \<and> (\<forall>cls event_data from_address. length event_data < 3 \<longrightarrow>
      parse_debt_transfer_event cls event_data from_address = Inl IndexError)
   \<and> (\<forall>self event_data. length event_data < 2 \<longrightarrow>
      parse_interest_bearing_collateral_mint_event self event_data = Inl IndexError)
   \<and> (\<forall>self event_data. length event_data < 2 \<longrightarrow>
      parse_interest_bearing_collateral_burn_event self event_data = Inl IndexError)
   \<and> (\<forall>self event_data. length event_data < 2 \<longrightarrow>
      parse_debt_mint_event self event_data = Inl IndexError)
   \<and> (\<forall>self event_data. length event_data < 2 \<longrightarrow>
      parse_debt_burn_event self event_data = Inl IndexError)"
proof (intro conjI allI impI)
  fix cls and event_data :: "py_value list"
  assume "length event_data < 8"
  then show "parse_interest_rate_model_event cls event_data = Inl IndexError"
    by (simp add: parse_interest_rate_model_event_def getitem_def)
next
  fix cls and event_data :: "py_value list" and from_address
  assume "length event_data < 3"
  then show "parse_debt_transfer_event cls event_data from_address = Inl IndexError"
    by (simp add: parse_debt_transfer_event_def getitem_def)
next
  fix self and event_data :: "py_value list"
  assume "length event_data < 2"
  then show "parse_interest_bearing_collateral_mint_event self event_data = Inl IndexError"
    by (simp add: parse_interest_bearing_collateral_mint_event_def getitem_def)
next
  fix self and event_data :: "py_value list"
  assume "length event_data < 2"
  then show "parse_interest_bearing_collateral_burn_event self event_data = Inl IndexError"
    by (simp add: parse_interest_bearing_collateral_burn_event_def getitem_def)
next
  fix self and event_data :: "py_value list"
  assume "length event_data < 2"
  then show "parse_debt_mint_event self event_data = Inl IndexError"
    by (simp add: parse_debt_mint_event_def getitem_def)
next
  fix self and event_data :: "py_value list"
  assume "length event_data < 2"
  then show "parse_debt_burn_event self event_data = Inl IndexError"
    by (simp add: parse_debt_burn_event_def getitem_def)
qed

theorem short_event_data_raises_IndexError_witness:
  "length [PyStr ''0xabc'', PyInt 1, PyInt 2, PyInt 3, PyInt 4, PyInt 5, PyInt 6] < 8
   \<and> parse_interest_rate_model_event (NostraDataParser [])
        [PyStr ''0xabc'', PyInt 1, PyInt 2, PyInt 3, PyInt 4, PyInt 5, PyInt 6] = Inl IndexError
   \<and> length [PyStr ''0xsender'', PyStr ''0xrecipient''] < 3
   \<and> parse_debt_transfer_event (NostraDataParser [])
        [PyStr ''0xsender'', PyStr ''0xrecipient''] ''0xtoken'' = Inl IndexError
   \<and> length [PyStr ''0xuser''] < 2
   \<and> parse_interest_bearing_collateral_mint_event (NostraDataParser []) [PyStr ''0xuser''] =
       Inl IndexError
   \<and> parse_interest_bearing_collateral_burn_event (NostraDataParser []) [PyStr ''0xuser''] =
       Inl IndexError
   \<and> parse_debt_mint_event (NostraDataParser []) [PyStr ''0xuser''] = Inl IndexError
   \<and> length ([] :: py_value list) < 2
   \<and> parse_debt_burn_event (NostraDataParser []) [] = Inl IndexError"
proof -
  note short = short_event_data_raises_IndexError
  have "parse_interest_rate_model_event (NostraDataParser [])
        [PyStr ''0xabc'', PyInt 1, PyInt 2, PyInt 3, PyInt 4, PyInt 5, PyInt 6] = Inl IndexError"
    using short by simp
  moreover have "parse_debt_transfer_event (NostraDataParser [])
        [PyStr ''0xsender'', PyStr ''0xrecipient''] ''0xtoken'' = Inl IndexError"
    using short by simp
  moreover have
    "parse_interest_bearing_collateral_mint_event (NostraDataParser []) [PyStr ''0xuser''] =
       Inl IndexError"
    "parse_interest_bearing_collateral_burn_event (NostraDataParser []) [PyStr ''0xuser''] =
       Inl IndexError"
    "parse_debt_mint_event (NostraDataParser []) [PyStr ''0xuser''] = Inl IndexError"
    "parse_debt_burn_event (NostraDataParser []) [] = Inl IndexError"
    using short by simp_all
  ultimately show ?thesis by simp
qed

subsection \<open>Purity\<close>

text \<open>
  On the store, a call of an implemented mapper returns what the mapper computes from the
  content of the list and leaves the state as it found it.
\<close>

lemma parse_interest_rate_model_event_st_run:
  "parse_interest_rate_model_event_st cls event_data s =
     (parse_interest_rate_model_event (NostraDataParser (attributes s cls))
        (lists s event_data), s)"
  by (simp add: parse_interest_rate_model_event_st_def parse_interest_rate_model_event_def
      bind_py_def load_subscr_def return_py_def split: sum.splits)

lemma parse_interest_bearing_collateral_mint_event_st_run:
  "parse_interest_bearing_collateral_mint_event_st self event_data s =
     (parse_interest_bearing_collateral_mint_event (NostraDataParser (attributes s self))
        (lists s event_data), s)"
  by (simp add: parse_interest_bearing_collateral_mint_event_st_def
      parse_interest_bearing_collateral_mint_event_def
      bind_py_def load_subscr_def return_py_def split: sum.splits)

lemma parse_interest_bearing_collateral_burn_event_st_run:
  "parse_interest_bearing_collateral_burn_event_st self event_data s =
     (parse_interest_bearing_collateral_burn_event (NostraDataParser (attributes s self))
        (lists s event_data), s)"
  by (simp add: parse_interest_bearing_collateral_burn_event_st_def
      parse_interest_bearing_collateral_burn_event_def
      bind_py_def load_subscr_def return_py_def split: sum.splits)

lemma parse_debt_transfer_event_st_run:
  "parse_debt_transfer_event_st cls event_data from_address s =
     (parse_debt_transfer_event (NostraDataParser (attributes s cls))
        (lists s event_data) from_address, s)"
  by (simp add: parse_debt_transfer_event_st_def parse_debt_transfer_event_def
      bind_py_def load_subscr_def return_py_def split: sum.splits)

lemma parse_debt_mint_event_st_run:
  "parse_debt_mint_event_st self event_data s =
     (parse_debt_mint_event (NostraDataParser (attributes s self)) (lists s event_data), s)"
  by (simp add: parse_debt_mint_event_st_def parse_debt_mint_event_def
      bind_py_def load_subscr_def return_py_def split: sum.splits)

lemma parse_debt_burn_event_st_run:
  "parse_debt_burn_event_st self event_data s =
     (parse_debt_burn_event (NostraDataParser (attributes s self)) (lists s event_data), s)"
  by (simp add: parse_debt_burn_event_st_def parse_debt_burn_event_def
      bind_py_def load_subscr_def return_py_def split: sum.splits)

text \<open>
  C7. Every implemented mapper is pure and stateless. A call changes nothing: the state
  after it (every list, every attribute of every parser object, the output) is the state
  before it, and the only thing it yields is its outcome. Calling it twice in a row with
  the same receiver, the same list and the same \<open>from_address\<close> yields the same outcome
  both times, namely the record made of the list's content (or the same exception), and
  again leaves the state unchanged.
\<close>

theorem implemented_mappers_are_pure:
  "snd (parse_interest_rate_model_event_st self event_data s) = s
   \<and> call_twice (parse_interest_rate_model_event_st self event_data) s =
       (parse_interest_rate_model_event (NostraDataParser (attributes s self))
          (lists s event_data),
        parse_interest_rate_model_event (NostraDataParser (attributes s self))
          (lists s event_data), s)
   \<and> snd (parse_interest_bearing_collateral_mint_event_st self event_data s) = s
   \<and> call_twice (parse_interest_bearing_collateral_mint_event_st self event_data) s =
       (parse_interest_bearing_collateral_mint_event (NostraDataParser (attributes s self))
          (lists s event_data),
        parse_interest_bearing_collateral_mint_event (NostraDataParser (attributes s self))
          (lists s event_data), s)
   \<and> snd (parse_interest_bearing_collateral_burn_event_st self event_data s) = s
   \<and> call_twice (parse_interest_bearing_collateral_burn_event_st self event_data) s =
       (parse_interest_bearing_collateral_burn_event (NostraDataParser (attributes s self))
          (lists s event_data),
        parse_interest_bearing_collateral_burn_event (NostraDataParser (attributes s self))
          (lists s event_data), s)
   \<and> snd (parse_debt_transfer_event_st self event_data from_address s) = s
   \<and> call_twice (parse_debt_transfer_event_st self event_data from_address) s =
       (parse_debt_transfer_event (NostraDataParser (attributes s self))
          (lists s event_data) from_address,
        parse_debt_transfer_event (NostraDataParser (attributes s self))
          (lists s event_data) from_address, s)
   \<and> snd (parse_debt_mint_event_st self event_data s) = s
   \<and> call_twice (parse_debt_mint_event_st self event_data) s =
       (parse_debt_mint_event (NostraDataParser (attributes s self)) (lists s event_data),
        parse_debt_mint_event (NostraDataParser (attributes s self)) (lists s event_data), s)
   \<and> snd (parse_debt_burn_event_st self event_data s) = s
   \<and> call_twice (parse_debt_burn_event_st self event_data) s =
       (parse_debt_burn_event (NostraDataParser (attributes s self)) (lists s event_data),
        parse_debt_burn_event (NostraDataParser (attributes s self)) (lists s event_data), s)"
  by (simp add: call_twice_def
      parse_interest_rate_model_event_st_run
      parse_interest_bearing_collateral_mint_event_st_run
      parse_interest_bearing_collateral_burn_event_st_run
      parse_debt_transfer_event_st_run
      parse_debt_mint_event_st_run
      parse_debt_burn_event_st_run)

end
